theory Spec2Isabelle
  imports Main
begin

section \<open>JavaScript values, thrown values and results\<close>

text \<open>
  The tool-call handler receives a loosely typed argument bag. Only one argument is ever
  inspected by the code modelled here (\<open>domain\<close>), and it is inspected in two ways: by
  \<open>Array.prototype.includes\<close> against string literals and by interpolation into a template
  literal. A value is therefore \<open>undefined\<close>, a string, some other value that converts to
  a string (it carries the text that \<open>String(v)\<close> yields for it), or an object that has no
  conversion to a primitive value, such as the decoded JSON object \<open>{"toString": 1}\<close>.
\<close>

datatype jsval = JUndefined | JString string | JOther string | JOpaque

text \<open>
  A thrown value is an instance of \<open>Error\<close> with its \<open>message\<close>, or any other value with
  its \<open>String(v)\<close> text. \<open>thrown_message\<close> is the expression
  \<open>error instanceof Error ? error.message : String(error)\<close> of the catch block.
\<close>

datatype thrown = JsError string | JsThrown string

fun thrown_message :: "thrown \<Rightarrow> string" where
  "thrown_message (JsError m) = m"
| "thrown_message (JsThrown s) = s"

text \<open>
  The conversion a template literal applies to an interpolated value. It throws a
  \<open>TypeError\<close> for an object without a conversion; the message is the one the runtime of
  the server (Node.js) gives it.
\<close>

fun js_String :: "jsval \<Rightarrow> thrown + string" where
  "js_String JUndefined = Inr ''undefined''"
| "js_String (JString s) = Inr s"
| "js_String (JOther s) = Inr s"
| "js_String JOpaque = Inl (JsError ''Cannot convert object to primitive value'')"

text \<open>
  The argument bag of a call (\<open>request.params.arguments\<close>) is optional in the protocol:
  \<open>None\<close> is \<open>undefined\<close>, \<open>Some a\<close> is an object, and reading a key that the object lacks
  yields \<open>undefined\<close>.
\<close>

type_synonym args = "(string \<rightharpoonup> jsval) option"

definition getProp :: "(string \<rightharpoonup> jsval) \<Rightarrow> string \<Rightarrow> jsval" where
  "getProp a k = (case a k of None \<Rightarrow> JUndefined | Some v \<Rightarrow> v)"

text \<open>
  A tool descriptor. The parameter schema is constant data that no code path of the server
  reads; it is left out. A call result is the text of the single item of \<open>content\<close> and the error
  flag (\<open>isError\<close> absent is \<open>False\<close>).
\<close>

record Tool =
  name :: string
  description :: string

record CallToolResult =
  content_text :: string
  isError :: bool

definition nl :: string where
  "nl = [CHR 0x0A]"

fun join :: "string \<Rightarrow> string list \<Rightarrow> string" where
  "join sep [] = []"
| "join sep [x] = x"
| "join sep (x # y # ys) = x @ sep @ join sep (y # ys)"

section \<open>Domain names (utils/types.ts)\<close>

datatype DomainName = Customers | Tickets | Assets | Contacts | Invoices

fun domainString :: "DomainName \<Rightarrow> string" where
  "domainString Customers = ''customers''"
| "domainString Tickets = ''tickets''"
| "domainString Assets = ''assets''"
| "domainString Contacts = ''contacts''"
| "domainString Invoices = ''invoices''"

definition isDomainName :: "jsval \<Rightarrow> bool" where
  "isDomainName v \<longleftrightarrow>
     v \<in> set [JString ''customers'', JString ''tickets'', JString ''assets'',
               JString ''contacts'', JString ''invoices'']"

text \<open>
  The type guard narrows a string to \<open>DomainName\<close> without changing it. \<open>asDomainName\<close>
  is that cast; the server applies it only to values that passed \<open>isDomainName\<close>.
\<close>

definition asDomainName :: "jsval \<Rightarrow> DomainName" where
  "asDomainName v =
     (if v = JString ''customers'' then Customers
      else if v = JString ''tickets'' then Tickets
      else if v = JString ''assets'' then Assets
      else if v = JString ''contacts'' then Contacts
      else Invoices)"

section \<open>Credentials and the cached client (utils/client.ts)\<close>

type_synonym env = "string \<rightharpoonup> string"

record SyncroCredentials =
  apiKey :: string
  subdomain :: "string option"

definition getCredentials :: "env \<Rightarrow> SyncroCredentials option" where
  "getCredentials e =
     (case e ''SYNCRO_API_KEY'' of
        None \<Rightarrow> None
      | Some k \<Rightarrow>
          if k = [] then None
          else Some \<lparr>apiKey = k, subdomain = e ''SYNCRO_SUBDOMAIN''\<rparr>)"

text \<open>
  A client object is identified by \<open>ident\<close>, the number of client objects constructed before
  it: two handles are the same instance exactly when they are equal. \<open>constructed\<close> counts
  the \<open>new SyncroClient\<close> calls made so far; \<open>c_client\<close> and \<open>c_credentials\<close> are the module
  variables \<open>_client\<close> and \<open>_credentials\<close>.
\<close>

record SyncroClient =
  ident :: nat
  config :: SyncroCredentials

record client_cache =
  c_client :: "SyncroClient option"
  c_credentials :: "SyncroCredentials option"
  constructed :: nat

definition no_client :: client_cache where
  "no_client = \<lparr>c_client = None, c_credentials = None, constructed = 0\<rparr>"

definition credentials_changed :: "SyncroCredentials \<Rightarrow> client_cache \<Rightarrow> bool" where
  "credentials_changed creds cc =
     (case c_client cc of
        None \<Rightarrow> False
      | Some _ \<Rightarrow>
          (case c_credentials cc of
             None \<Rightarrow> False
           | Some old \<Rightarrow> apiKey creds \<noteq> apiKey old \<or> subdomain creds \<noteq> subdomain old))"

definition getClient :: "env \<Rightarrow> client_cache \<Rightarrow> (thrown + SyncroClient) \<times> client_cache" where
  "getClient e cc =
     (case getCredentials e of
        None \<Rightarrow>
          (Inl (JsError
             ''No API credentials provided. Please configure SYNCRO_API_KEY environment variable.''),
           cc)
      | Some creds \<Rightarrow>
          (let cc1 = (if credentials_changed creds cc then cc\<lparr>c_client := None\<rparr> else cc)
           in case c_client cc1 of
                None \<Rightarrow>
                  (let cl = \<lparr>ident = constructed cc1, config = creds\<rparr>
                   in (Inr cl,
                       cc1\<lparr>c_client := Some cl, c_credentials := Some creds,
                           constructed := Suc (constructed cc1)\<rparr>))
              | Some cl \<Rightarrow> (Inr cl, cc1)))"

definition clearClient :: "client_cache \<Rightarrow> client_cache" where
  "clearClient cc = cc\<lparr>c_client := None, c_credentials := None\<rparr>"

text \<open>
  What the module maintains between calls: a cached client comes with the credentials it
  was built from, and was constructed earlier than any client still to be constructed.
\<close>

definition client_inv :: "client_cache \<Rightarrow> bool" where
  "client_inv cc \<longleftrightarrow>
     (case c_client cc of
        None \<Rightarrow> True
      | Some cl \<Rightarrow> c_credentials cc = Some (config cl) \<and> ident cl < constructed cc)"

section \<open>Domain handlers (domains/*.ts)\<close>

text \<open>
  Every handler module has the same shape. \<open>getTools\<close> returns a constant list.
  \<open>handleCall\<close> first awaits \<open>getClient()\<close>, then switches on the tool name; the case
  labels are the names of the module's own tools, and the \<open>default\<close> branch returns an
  error result. The body of a matching case marshals the arguments, awaits one method of
  the remote client and serialises the answer: that part belongs to the remote platform and
  is the parameter \<open>api\<close>, which either throws or yields the text of the result.
\<close>

type_synonym api = "SyncroClient \<Rightarrow> string \<Rightarrow> args \<Rightarrow> thrown + string"

record DomainHandler =
  getTools :: "Tool list"
  handleCall :: "string \<Rightarrow> args \<Rightarrow> env \<Rightarrow> client_cache \<Rightarrow> (thrown + CallToolResult) \<times> client_cache"

definition moduleHandleCall ::
  "Tool list \<Rightarrow> string \<Rightarrow> api \<Rightarrow> string \<Rightarrow> args \<Rightarrow> env \<Rightarrow> client_cache
     \<Rightarrow> (thrown + CallToolResult) \<times> client_cache" where
  "moduleHandleCall tools unknown remote toolName a e cc =
     (case getClient e cc of
        (Inl err, cc') \<Rightarrow> (Inl err, cc')
      | (Inr cl, cc') \<Rightarrow>
          if toolName \<in> set (map name tools) then
            (case remote cl toolName a of
               Inl err \<Rightarrow> (Inl err, cc')
             | Inr t \<Rightarrow> (Inr \<lparr>content_text = t, isError = False\<rparr>, cc'))
          else (Inr \<lparr>content_text = unknown @ toolName, isError = True\<rparr>, cc'))"

definition customersTools :: "Tool list" where
  "customersTools =
     [\<lparr>name = ''syncro_customers_list'',
       description = ''List customers in Syncro. Can filter by query, email, phone, or include disabled customers.''\<rparr>,
      \<lparr>name = ''syncro_customers_get'',
       description = ''Get details for a specific customer by their ID''\<rparr>,
      \<lparr>name = ''syncro_customers_create'',
       description = ''Create a new customer in Syncro''\<rparr>,
      \<lparr>name = ''syncro_customers_search'',
       description = ''Search for customers using a query string. Matches against business name, contact name, email, and other fields.''\<rparr>]"

definition ticketsTools :: "Tool list" where
  "ticketsTools =
     [\<lparr>name = ''syncro_tickets_list'',
       description = ''List tickets in Syncro. Can filter by customer, contact, status, user, problem type, or resolved state.''\<rparr>,
      \<lparr>name = ''syncro_tickets_get'',
       description = ''Get details for a specific ticket by its ID, including comments''\<rparr>,
      \<lparr>name = ''syncro_tickets_create'',
       description = ''Create a new ticket in Syncro''\<rparr>,
      \<lparr>name = ''syncro_tickets_update'',
       description = ''Update an existing ticket in Syncro''\<rparr>,
      \<lparr>name = ''syncro_tickets_add_comment'',
       description = ''Add a comment to an existing ticket''\<rparr>]"

definition assetsTools :: "Tool list" where
  "assetsTools =
     [\<lparr>name = ''syncro_assets_list'',
       description = ''List assets/configuration items in Syncro. Can filter by customer, asset type, or serial number.''\<rparr>,
      \<lparr>name = ''syncro_assets_get'',
       description = ''Get details for a specific asset by its ID''\<rparr>,
      \<lparr>name = ''syncro_assets_search'',
       description = ''Search for assets using a query string or serial number. Useful for finding devices by name, serial, or other attributes.''\<rparr>]"

definition contactsTools :: "Tool list" where
  "contactsTools =
     [\<lparr>name = ''syncro_contacts_list'',
       description = ''List contacts in Syncro. Can filter by customer ID or search query.''\<rparr>,
      \<lparr>name = ''syncro_contacts_get'',
       description = ''Get details for a specific contact by their ID''\<rparr>,
      \<lparr>name = ''syncro_contacts_create'',
       description = ''Create a new contact in Syncro''\<rparr>]"

definition invoicesTools :: "Tool list" where
  "invoicesTools =
     [\<lparr>name = ''syncro_invoices_list'',
       description = ''List invoices in Syncro. Can filter by customer, status, or date range.''\<rparr>,
      \<lparr>name = ''syncro_invoices_get'',
       description = ''Get details for a specific invoice by its ID, including line items''\<rparr>,
      \<lparr>name = ''syncro_invoices_create'',
       description = ''Create a new invoice in Syncro''\<rparr>,
      \<lparr>name = ''syncro_invoices_email'',
       description = ''Email an invoice to the customer''\<rparr>]"

definition customersHandler :: "api \<Rightarrow> DomainHandler" where
  "customersHandler remote =
     \<lparr>getTools = customersTools,
      handleCall = moduleHandleCall customersTools ''Unknown customer tool: '' remote\<rparr>"

definition ticketsHandler :: "api \<Rightarrow> DomainHandler" where
  "ticketsHandler remote =
     \<lparr>getTools = ticketsTools,
      handleCall = moduleHandleCall ticketsTools ''Unknown ticket tool: '' remote\<rparr>"

definition assetsHandler :: "api \<Rightarrow> DomainHandler" where
  "assetsHandler remote =
     \<lparr>getTools = assetsTools,
      handleCall = moduleHandleCall assetsTools ''Unknown asset tool: '' remote\<rparr>"

definition contactsHandler :: "api \<Rightarrow> DomainHandler" where
  "contactsHandler remote =
     \<lparr>getTools = contactsTools,
      handleCall = moduleHandleCall contactsTools ''Unknown contact tool: '' remote\<rparr>"

definition invoicesHandler :: "api \<Rightarrow> DomainHandler" where
  "invoicesHandler remote =
     \<lparr>getTools = invoicesTools,
      handleCall = moduleHandleCall invoicesTools ''Unknown invoice tool: '' remote\<rparr>"

section \<open>The handler registry (domains/index.ts)\<close>

text \<open>
  \<open>getDomainHandler\<close> consults the cache and otherwise awaits the dynamic \<open>import\<close> of the
  domain's module. An import can reject; the loader is therefore a parameter that yields
  the module's handler or the thrown value. \<open>importModule\<close> is the loader of an
  installation in which all five modules load. The \<open>default\<close> branch of the switch is
  excluded by the type \<open>DomainName\<close>.
\<close>

type_synonym loader = "DomainName \<Rightarrow> thrown + DomainHandler"

type_synonym handler_cache = "DomainName \<rightharpoonup> DomainHandler"

definition importModule :: "api \<Rightarrow> loader" where
  "importModule remote d =
     Inr (case d of
            Customers \<Rightarrow> customersHandler remote
          | Tickets \<Rightarrow> ticketsHandler remote
          | Assets \<Rightarrow> assetsHandler remote
          | Contacts \<Rightarrow> contactsHandler remote
          | Invoices \<Rightarrow> invoicesHandler remote)"

definition getDomainHandler ::
  "loader \<Rightarrow> handler_cache \<Rightarrow> DomainName \<Rightarrow> (thrown + DomainHandler) \<times> handler_cache" where
  "getDomainHandler imp cache d =
     (case cache d of
        Some cached \<Rightarrow> (Inr cached, cache)
      | None \<Rightarrow>
          (case imp d of
             Inl err \<Rightarrow> (Inl err, cache)
           | Inr handler \<Rightarrow> (Inr handler, cache(d \<mapsto> handler))))"

definition getAvailableDomains :: "DomainName list" where
  "getAvailableDomains = [Customers, Tickets, Assets, Contacts, Invoices]"

definition clearDomainCache :: "handler_cache \<Rightarrow> handler_cache" where
  "clearDomainCache cache = Map.empty"

text \<open>
  What the registry maintains in an installation whose modules load: the handler cached
  for a domain is the one that domain's module exports.
\<close>

definition cache_inv :: "api \<Rightarrow> handler_cache \<Rightarrow> bool" where
  "cache_inv remote cache \<longleftrightarrow>
     list_all
       (\<lambda>d. case cache d of None \<Rightarrow> True | Some h \<Rightarrow> importModule remote d = Inr h)
       getAvailableDomains"

section \<open>The server (index.ts)\<close>

text \<open>
  The state of the process: the module variable \<open>currentDomain\<close>, the registry's cache,
  \<open>process.env\<close> and the client cache. \<open>trace\<close> is a ghost history, not a variable of the
  program: it records each call of \<open>transport.handleRequest\<close> and each call of a handler's
  \<open>handleCall\<close>, the two points where control passes to protocol dispatch and to a domain
  operation.
\<close>

datatype event = EvHandleRequest | EvHandleCall DomainName string

record server =
  currentDomain :: "DomainName option"
  domainCache :: handler_cache
  process_env :: env
  clients :: client_cache
  trace :: "event list"

definition initial :: "env \<Rightarrow> server" where
  "initial e =
     \<lparr>currentDomain = None, domainCache = Map.empty, process_env = e,
      clients = no_client, trace = []\<rparr>"

definition navigateTool :: Tool where
  "navigateTool =
     \<lparr>name = ''syncro_navigate'',
      description = ''Navigate to a Syncro domain to access its tools. Available domains: customers (manage customer accounts), tickets (manage support tickets), assets (manage configuration items/devices), contacts (manage customer contacts), invoices (view and manage billing).''\<rparr>"

definition backTool :: Tool where
  "backTool =
     \<lparr>name = ''syncro_back'',
      description = ''Navigate back to the main menu to select a different domain''\<rparr>"

definition statusTool :: Tool where
  "statusTool =
     \<lparr>name = ''syncro_status'',
      description = ''Show current navigation state and available domains. Also verifies API credentials are configured.''\<rparr>"

definition getToolsForState :: "loader \<Rightarrow> server \<Rightarrow> (thrown + Tool list) \<times> server" where
  "getToolsForState imp s =
     (let tools = [statusTool]
      in case currentDomain s of
           None \<Rightarrow> (Inr (navigateTool # tools), s)
         | Some d \<Rightarrow>
             (let tools' = backTool # tools
              in case getDomainHandler imp (domainCache s) d of
                   (Inl err, c) \<Rightarrow> (Inl err, s\<lparr>domainCache := c\<rparr>)
                 | (Inr handler, c) \<Rightarrow>
                     (Inr (tools' @ getTools handler), s\<lparr>domainCache := c\<rparr>)))"

definition domainList :: string where
  "domainList = join '', '' (map domainString getAvailableDomains)"

definition toolLine :: "Tool \<Rightarrow> string" where
  "toolLine t = ''- '' @ name t @ '': '' @ description t"

definition navigateText :: "DomainName \<Rightarrow> Tool list \<Rightarrow> string" where
  "navigateText d domainTools =
     ''Navigated to '' @ domainString d @ '' domain.'' @ nl @ nl @ ''Available tools:'' @ nl
       @ join nl (map toolLine domainTools) @ nl @ nl
       @ ''Use syncro_back to return to the main menu.''"

definition backText :: "DomainName option \<Rightarrow> string" where
  "backText previousDomain =
     ''Navigated back from ''
       @ (case previousDomain of None \<Rightarrow> ''root'' | Some d \<Rightarrow> domainString d)
       @ '' to the main menu.'' @ nl @ nl @ ''Available domains: '' @ domainList @ nl @ nl
       @ ''Use syncro_navigate to select a domain.''"

definition credStatus :: "SyncroCredentials option \<Rightarrow> string" where
  "credStatus creds =
     (case creds of
        None \<Rightarrow> ''NOT CONFIGURED - Please set SYNCRO_API_KEY environment variable''
      | Some c \<Rightarrow>
          ''Configured''
            @ (case subdomain c of
                 None \<Rightarrow> []
               | Some sd \<Rightarrow> if sd = [] then [] else '' (subdomain: '' @ sd @ '')''))"

definition statusText :: "DomainName option \<Rightarrow> SyncroCredentials option \<Rightarrow> string" where
  "statusText cur creds =
     ''Syncro MCP Server Status'' @ nl @ nl @ ''Current domain: ''
       @ (case cur of None \<Rightarrow> ''(none - at main menu)'' | Some d \<Rightarrow> domainString d) @ nl
       @ ''Credentials: '' @ credStatus creds @ nl
       @ ''Available domains: '' @ domainList @ nl
       @ ''Rate limit: 180 requests/minute''"

definition unknownToolText :: "DomainName option \<Rightarrow> string \<Rightarrow> string" where
  "unknownToolText cur toolName =
     (case cur of
        Some d \<Rightarrow>
          ''Unknown tool: '' @ toolName @ ''. You are currently in the '' @ domainString d
            @ '' domain. Use syncro_back to return to the main menu.''
      | None \<Rightarrow>
          ''Unknown tool: '' @ toolName @ ''. Use syncro_navigate to select a domain first.'')"

text \<open>
  Reading \<open>.domain\<close> of an absent argument bag throws a \<open>TypeError\<close>; this is the message
  the runtime of the server (Node.js) gives it.
\<close>

definition readOfUndefined :: "string \<Rightarrow> thrown" where
  "readOfUndefined k =
     JsError (''Cannot read properties of undefined (reading '' @ [CHR 0x27] @ k @ [CHR 0x27] @ '')'')"

text \<open>The body of the \<open>try\<close> block of the tool-call handler: it returns a result or throws.\<close>

definition callToolBody ::
  "loader \<Rightarrow> server \<Rightarrow> string \<Rightarrow> args \<Rightarrow> server \<times> (thrown + CallToolResult)" where
  "callToolBody imp s toolName a =
     (if toolName = ''syncro_navigate'' then
        (case a of
           None \<Rightarrow> (s, Inl (readOfUndefined ''domain''))
         | Some bag \<Rightarrow>
             (let domain = getProp bag ''domain''
              in if \<not> isDomainName domain then
                   (case js_String domain of
                      Inl err \<Rightarrow> (s, Inl err)
                    | Inr shown \<Rightarrow>
                        (s, Inr \<lparr>content_text =
                                   ''Invalid domain: '' @ shown
                                     @ ''. Available domains: '' @ domainList,
                                 isError = True\<rparr>))
                 else
                   (case getCredentials (process_env s) of
                      None \<Rightarrow>
                        (s, Inr \<lparr>content_text =
                                   ''Error: No API credentials configured. Please set SYNCRO_API_KEY environment variable.'',
                                 isError = True\<rparr>)
                    | Some creds \<Rightarrow>
                        (let d = asDomainName domain;
                             s1 = s\<lparr>currentDomain := Some d\<rparr>
                         in case getDomainHandler imp (domainCache s1) d of
                              (Inl err, c) \<Rightarrow> (s1\<lparr>domainCache := c\<rparr>, Inl err)
                            | (Inr handler, c) \<Rightarrow>
                                (s1\<lparr>domainCache := c\<rparr>,
                                 Inr \<lparr>content_text = navigateText d (getTools handler),
                                      isError = False\<rparr>)))))
      else if toolName = ''syncro_back'' then
        (let previousDomain = currentDomain s
         in (s\<lparr>currentDomain := None\<rparr>,
             Inr \<lparr>content_text = backText previousDomain, isError = False\<rparr>))
      else if toolName = ''syncro_status'' then
        (s, Inr \<lparr>content_text = statusText (currentDomain s) (getCredentials (process_env s)),
                 isError = False\<rparr>)
      else
        (let notFound = (\<lambda>s'. (s', Inr \<lparr>content_text = unknownToolText (currentDomain s') toolName,
                                          isError = True\<rparr>))
         in case currentDomain s of
              None \<Rightarrow> notFound s
            | Some d \<Rightarrow>
                (case getDomainHandler imp (domainCache s) d of
                   (Inl err, c) \<Rightarrow> (s\<lparr>domainCache := c\<rparr>, Inl err)
                 | (Inr handler, c) \<Rightarrow>
                     (let s1 = s\<lparr>domainCache := c\<rparr>;
                          toolExists = (\<exists>t \<in> set (getTools handler). name t = toolName)
                      in if toolExists then
                           (case handleCall handler toolName a (process_env s1) (clients s1) of
                              (r, cc) \<Rightarrow>
                                (s1\<lparr>clients := cc, trace := trace s1 @ [EvHandleCall d toolName]\<rparr>, r))
                         else notFound s1))))"

text \<open>The handler with its \<open>catch\<close> block: whatever the body throws becomes an error result.\<close>

definition callTool :: "loader \<Rightarrow> server \<Rightarrow> string \<Rightarrow> args \<Rightarrow> server \<times> CallToolResult" where
  "callTool imp s toolName a =
     (case callToolBody imp s toolName a of
        (s', Inr result) \<Rightarrow> (s', result)
      | (s', Inl error) \<Rightarrow>
          (s', \<lparr>content_text = ''Error: '' @ thrown_message error, isError = True\<rparr>))"

section \<open>The HTTP transport (index.ts)\<close>

text \<open>
  A header of an incoming message is a string or an array of strings. Node.js stores header
  names in lower case. \<open>toLowerCase\<close> is given for ASCII letters, which is all the names
  used here contain.
\<close>

datatype hval = HString string | HArray "string list"

type_synonym headers = "string \<rightharpoonup> hval"

definition lowerChar :: "char \<Rightarrow> char" where
  "lowerChar c =
     (let n = (of_char c :: nat) in if 65 \<le> n \<and> n \<le> 90 then char_of (n + 32) else c)"

definition toLowerCase :: "string \<Rightarrow> string" where
  "toLowerCase s = map lowerChar s"

fun truthy :: "hval option \<Rightarrow> bool" where
  "truthy None = False"
| "truthy (Some (HString s)) = (s \<noteq> [])"
| "truthy (Some (HArray xs)) = True"

definition getHeader :: "headers \<Rightarrow> string \<Rightarrow> string option" where
  "getHeader hs k =
     (let v = (if truthy (hs k) then hs k else hs (toLowerCase k))
      in case v of
           Some (HArray xs) \<Rightarrow> (case xs of [] \<Rightarrow> None | x # _ \<Rightarrow> Some x)
         | Some (HString x) \<Rightarrow> Some x
         | None \<Rightarrow> None)"

fun nonempty :: "string option \<Rightarrow> bool" where
  "nonempty None = False"
| "nonempty (Some s) = (s \<noteq> [])"

definition applyGatewayCredentials :: "headers \<Rightarrow> env \<Rightarrow> bool \<times> env" where
  "applyGatewayCredentials hs e =
     (let apiKey = getHeader hs ''x-syncro-api-key'';
          subdomain = getHeader hs ''x-syncro-subdomain''
      in case apiKey of
           None \<Rightarrow> (False, e)
         | Some k \<Rightarrow>
             if k = [] then (False, e)
             else
               (let e1 = e(''SYNCRO_API_KEY'' \<mapsto> k)
                in (True,
                    case subdomain of
                      None \<Rightarrow> e1
                    | Some sd \<Rightarrow> if sd = [] then e1 else e1(''SYNCRO_SUBDOMAIN'' \<mapsto> sd))))"

text \<open>
  The transport object belongs to the protocol library. Of \<open>transport.handleRequest\<close> only
  this is modelled: it decodes the message of the request and runs the handler the server
  registered for it (list tools, call tool); any other message is answered by the library
  and touches no state of the server. A throwing list-tools handler is answered with a
  protocol error carrying the thrown value.
\<close>

datatype rpc = ListTools | CallTool string args | OtherRpc

datatype rpc_reply = ToolList "thrown + Tool list" | ToolResult CallToolResult | LibraryReply

definition handleRequest :: "loader \<Rightarrow> server \<Rightarrow> rpc \<Rightarrow> server \<times> rpc_reply" where
  "handleRequest imp s m =
     (let s0 = s\<lparr>trace := trace s @ [EvHandleRequest]\<rparr>
      in case m of
           ListTools \<Rightarrow> (case getToolsForState imp s0 of (r, s1) \<Rightarrow> (s1, ToolList r))
         | CallTool toolName a \<Rightarrow>
             (case callTool imp s0 toolName a of (s1, r) \<Rightarrow> (s1, ToolResult r))
         | OtherRpc \<Rightarrow> (s0, LibraryReply))"

datatype json = JsonString string | JsonArray "json list" | JsonObject "(string \<times> json) list"

text \<open>
  What becomes of a request: a reply written by the listener itself, the answer of the
  transport, or the end of the process with an exit code and no reply.
\<close>

datatype response = Reply nat json | Transport rpc_reply | Exit nat

text \<open>
  A request as the listener receives it: \<open>url\<close> is \<open>req.url\<close>, the request target as
  sent, \<open>headers\<close> is \<open>req.headers\<close>, and \<open>message\<close> is the decoded protocol message of
  the body. \<open>now\<close> is the text of \<open>new Date().toISOString()\<close> at the time of the request.
\<close>

record request =
  url :: "string option"
  headers :: headers
  message :: rpc

text \<open>
  The constructor \<open>URL\<close> belongs to the platform. It is a parameter: given the input and
  the base it yields the \<open>pathname\<close> of the parsed URL, or the \<open>TypeError\<close> it throws
  when the input does not parse against the base. The listener passes \<open>req.url || "/"\<close>
  and the text \<open>http://\<close> followed by \<open>req.headers.host || "localhost"\<close>; an array
  interpolates as its elements joined by commas.
\<close>

type_synonym url_parser = "string \<Rightarrow> string \<Rightarrow> thrown + string"

definition requestTarget :: "request \<Rightarrow> string" where
  "requestTarget req = (case url req of None \<Rightarrow> ''/'' | Some u \<Rightarrow> if u = [] then ''/'' else u)"

definition requestBase :: "request \<Rightarrow> string" where
  "requestBase req =
     ''http://''
       @ (case headers req ''host'' of
            None \<Rightarrow> ''localhost''
          | Some (HString h) \<Rightarrow> if h = [] then ''localhost'' else h
          | Some (HArray hs) \<Rightarrow> join '','' hs)"

definition pathname :: "url_parser \<Rightarrow> request \<Rightarrow> thrown + string" where
  "pathname parseURL req = parseURL (requestTarget req) (requestBase req)"

text \<open>
  The listener has no \<open>try\<close> block. What it throws reaches the handler the server
  registers for \<open>uncaughtException\<close>, which logs the error and calls \<open>process.exit(1)\<close>.
\<close>

definition uncaughtException :: "thrown \<Rightarrow> response" where
  "uncaughtException error = Exit 1"

definition healthBody :: "bool \<Rightarrow> string \<Rightarrow> json" where
  "healthBody isGatewayMode now =
     JsonObject
       [(''status'', JsonString ''ok''),
        (''transport'', JsonString ''http''),
        (''authMode'', JsonString (if isGatewayMode then ''gateway'' else ''env'')),
        (''timestamp'', JsonString now)]"

definition missingCredentialsBody :: json where
  "missingCredentialsBody =
     JsonObject
       [(''error'', JsonString ''Missing credentials''),
        (''message'', JsonString ''Gateway mode requires X-Syncro-API-Key header''),
        (''required'', JsonArray [JsonString ''X-Syncro-API-Key'']),
        (''optional'', JsonArray [JsonString ''X-Syncro-Subdomain''])]"

definition notFoundBody :: json where
  "notFoundBody =
     JsonObject
       [(''error'', JsonString ''Not found''),
        (''endpoints'', JsonArray [JsonString ''/mcp'', JsonString ''/health''])]"

definition httpListener ::
  "bool \<Rightarrow> url_parser \<Rightarrow> loader \<Rightarrow> string \<Rightarrow> server \<Rightarrow> request \<Rightarrow> server \<times> response" where
  "httpListener isGatewayMode parseURL imp now s req =
     (case pathname parseURL req of
        Inl error \<Rightarrow> (s, uncaughtException error)
      | Inr path \<Rightarrow>
          if path = ''/health'' then (s, Reply 200 (healthBody isGatewayMode now))
          else if path = ''/mcp'' then
            (if isGatewayMode then
               (case applyGatewayCredentials (headers req) (process_env s) of
                  (hasCredentials, e) \<Rightarrow>
                    if \<not> hasCredentials then
                      (s\<lparr>process_env := e\<rparr>, Reply 401 missingCredentialsBody)
                    else
                      (case handleRequest imp (s\<lparr>process_env := e\<rparr>) (message req) of
                         (s', r) \<Rightarrow> (s', Transport r)))
             else (case handleRequest imp s (message req) of (s', r) \<Rightarrow> (s', Transport r)))
          else (s, Reply 404 notFoundBody))"

section \<open>Concrete inputs\<close>

definition env_key :: env where
  "env_key = [''SYNCRO_API_KEY'' \<mapsto> ''first-api-key'']"

definition env_key_sub :: env where
  "env_key_sub = [''SYNCRO_API_KEY'' \<mapsto> ''first-api-key'', ''SYNCRO_SUBDOMAIN'' \<mapsto> ''company2'']"

definition ticketNotFound :: api where
  "ticketNotFound cl toolName a = Inl (JsError ''Ticket not found'')"

definition toTickets :: "string \<rightharpoonup> jsval" where
  "toTickets = [''domain'' \<mapsto> JString ''tickets'']"

definition inTickets :: server where
  "inTickets =
     (initial env_key)\<lparr>currentDomain := Some Tickets,
                        domainCache := [Tickets \<mapsto> ticketsHandler ticketNotFound]\<rparr>"

definition toUnknown :: "string \<rightharpoonup> jsval" where
  "toUnknown = [''domain'' \<mapsto> JString ''unknown'']"

definition brokenImport :: loader where
  "brokenImport d = Inl (JsError ''Cannot find module'')"

definition gatewayBoth :: request where
  "gatewayBoth =
     \<lparr>url = Some ''/mcp'',
      headers = [''x-syncro-api-key'' \<mapsto> HString ''test-api-key-123'',
                 ''x-syncro-subdomain'' \<mapsto> HString ''test-company''],
      message = OtherRpc\<rparr>"

definition gatewayKeyOnly :: request where
  "gatewayKeyOnly =
     \<lparr>url = Some ''/mcp'',
      headers = [''x-syncro-api-key'' \<mapsto> HString ''another-key''],
      message = CallTool ''syncro_status'' None\<rparr>"

definition gatewayNoKey :: request where
  "gatewayNoKey = \<lparr>url = Some ''/mcp'', headers = Map.empty, message = ListTools\<rparr>"

text \<open>
  A parser for the examples. It agrees with the platform's on the request targets the
  examples use: against the base \<open>http://localhost\<close> the targets \<open>/mcp\<close>, \<open>/health\<close>
  and \<open>/\<close> parse to themselves, and the target \<open>//\<close>, which announces a host and gives
  none, does not parse.
\<close>

definition exampleURL :: url_parser where
  "exampleURL input base =
     (if input = ''//'' then Inl (JsError ''Invalid URL'')
      else Inr (takeWhile (\<lambda>c. c \<noteq> CHR ''?'' \<and> c \<noteq> CHR ''#'') input))"

definition doubleSlash :: request where
  "doubleSlash = \<lparr>url = Some ''//'', headers = Map.empty, message = OtherRpc\<rparr>"

definition toOpaque :: "string \<rightharpoonup> jsval" where
  "toOpaque = [''domain'' \<mapsto> JOpaque]"

definition toCustomers :: "string \<rightharpoonup> jsval" where
  "toCustomers = [''domain'' \<mapsto> JString ''customers'']"



section \<open>Properties of the client cache\<close>

lemma client_inv_no_client: "client_inv no_client"
  by (simp add: client_inv_def no_client_def)

lemma client_inv_clearClient: "client_inv (clearClient cc)"
  by (simp add: client_inv_def clearClient_def)

lemma getClient_no_credentials:
  "getCredentials e = None \<Longrightarrow>
   getClient e cc =
     (Inl (JsError
        ''No API credentials provided. Please configure SYNCRO_API_KEY environment variable.''),
      cc)"
  by (simp add: getClient_def)

lemma getClient_cases:
  assumes "getCredentials e = Some t"
  shows "getClient e cc =
     (case c_client cc of
        Some cl \<Rightarrow> if credentials_changed t cc
                   then (Inr \<lparr>ident = constructed cc, config = t\<rparr>,
                         cc\<lparr>c_client := Some \<lparr>ident = constructed cc, config = t\<rparr>,
                            c_credentials := Some t, constructed := Suc (constructed cc)\<rparr>)
                   else (Inr cl, cc)
      | None \<Rightarrow> (Inr \<lparr>ident = constructed cc, config = t\<rparr>,
                  cc\<lparr>c_client := Some \<lparr>ident = constructed cc, config = t\<rparr>,
                     c_credentials := Some t, constructed := Suc (constructed cc)\<rparr>))"
  using assms by (simp add: getClient_def Let_def credentials_changed_def split: option.splits)

lemma client_inv_getClient:
  assumes "client_inv cc"
  shows "client_inv (snd (getClient e cc))"
proof (cases "getCredentials e")
  case None
  then show ?thesis using assms by (simp add: getClient_no_credentials)
next
  case (Some t)
  then show ?thesis using assms
    by (auto simp: getClient_cases client_inv_def split: option.splits)
qed

lemma changed_iff:
  "client_inv cc \<Longrightarrow> c_client cc = Some cl \<Longrightarrow> credentials_changed t cc \<longleftrightarrow> t \<noteq> config cl"
  by (cases t; cases "config cl") (auto simp: credentials_changed_def client_inv_def)


lemma getClient_Some:
  assumes "client_inv cc" and "getCredentials e = Some t"
  obtains h cc' where "getClient e cc = (Inr h, cc')" and "client_inv cc'"
    and "c_client cc' = Some h" and "config h = t"
    and "\<And>cl. c_client cc = Some cl \<Longrightarrow> config cl = t \<Longrightarrow> h = cl"
    and "\<And>cl. c_client cc = Some cl \<Longrightarrow> config cl \<noteq> t \<Longrightarrow> ident cl < ident h"
proof (cases "c_client cc")
  case None
  with assms show ?thesis
    by (intro that[of "\<lparr>ident = constructed cc, config = t\<rparr>"
          "cc\<lparr>c_client := Some \<lparr>ident = constructed cc, config = t\<rparr>,
              c_credentials := Some t, constructed := Suc (constructed cc)\<rparr>"])
       (simp_all add: getClient_cases client_inv_def)
next
  case (Some cl)
  show ?thesis
  proof (cases "config cl = t")
    case True
    with Some assms show ?thesis
      by (intro that[of cl cc]) (simp_all add: getClient_cases changed_iff client_inv_def)
  next
    case False
    with Some assms show ?thesis
      by (intro that[of "\<lparr>ident = constructed cc, config = t\<rparr>"
            "cc\<lparr>c_client := Some \<lparr>ident = constructed cc, config = t\<rparr>,
                c_credentials := Some t, constructed := Suc (constructed cc)\<rparr>"])
         (auto simp: getClient_cases changed_iff client_inv_def)
  qed
qed

lemma credentials_eq_iff:
  "(t1 :: SyncroCredentials) = t2 \<longleftrightarrow> apiKey t1 = apiKey t2 \<and> subdomain t1 = subdomain t2"
  by (cases t1; cases t2) simp

text \<open>
  Claim C2. Take a client cache as the module maintains it and three successive calls of
  \<open>getClient\<close>, the first and the third resolving the tuple \<open>t1\<close>, the second resolving
  \<open>t2\<close>. All three return a handle. If the two tuples agree in both fields, the second call
  returns the very instance the first returned. If they differ in the API key or in the
  tenant qualifier, the second call returns a different instance, and the third call, which
  resolves the old tuple again, does not return the old instance either.
\<close>

theorem getClient_cached_by_credentials:
  assumes "client_inv cc0"
    and "getCredentials e1 = Some t1" and "getCredentials e2 = Some t2"
    and "getCredentials e3 = Some t1"
  shows "\<exists>h1 cc1 h2 cc2 h3 cc3.
           getClient e1 cc0 = (Inr h1, cc1) \<and> getClient e2 cc1 = (Inr h2, cc2) \<and>
           getClient e3 cc2 = (Inr h3, cc3) \<and>
           (apiKey t1 = apiKey t2 \<and> subdomain t1 = subdomain t2 \<longrightarrow> h2 = h1) \<and>
           (apiKey t1 \<noteq> apiKey t2 \<or> subdomain t1 \<noteq> subdomain t2 \<longrightarrow> h2 \<noteq> h1 \<and> h3 \<noteq> h1)"
proof -
  from assms(1,2) obtain h1 cc1 where
    c1: "getClient e1 cc0 = (Inr h1, cc1)" and i1: "client_inv cc1"
    and k1: "c_client cc1 = Some h1" and g1: "config h1 = t1"
    by (rule getClient_Some)
  from i1 assms(3) obtain h2 cc2 where
    c2: "getClient e2 cc1 = (Inr h2, cc2)" and i2: "client_inv cc2"
    and k2: "c_client cc2 = Some h2" and g2: "config h2 = t2"
    and same2: "\<And>cl. c_client cc1 = Some cl \<Longrightarrow> config cl = t2 \<Longrightarrow> h2 = cl"
    and new2: "\<And>cl. c_client cc1 = Some cl \<Longrightarrow> config cl \<noteq> t2 \<Longrightarrow> ident cl < ident h2"
    by (rule getClient_Some) blast
  from i2 assms(4) obtain h3 cc3 where
    c3: "getClient e3 cc2 = (Inr h3, cc3)"
    and new3: "\<And>cl. c_client cc2 = Some cl \<Longrightarrow> config cl \<noteq> t1 \<Longrightarrow> ident cl < ident h3"
    by (rule getClient_Some) blast
  have eq: "t1 = t2 \<Longrightarrow> h2 = h1"
    using same2[OF k1] g1 by simp
  have ne: "ident h1 < ident h2 \<and> ident h2 < ident h3" if "t1 \<noteq> t2"
    using that new2[OF k1] new3[OF k2] g1 g2 by simp
  have "h2 \<noteq> h1 \<and> h3 \<noteq> h1" if "t1 \<noteq> t2"
    using ne[OF that] by auto
  with eq c1 c2 c3 show ?thesis
    by (simp add: credentials_eq_iff)
qed

theorem getClient_cached_by_credentials_witness:
  "client_inv no_client \<and>
   getCredentials env_key = Some \<lparr>apiKey = ''first-api-key'', subdomain = None\<rparr> \<and>
   getCredentials env_key_sub =
     Some \<lparr>apiKey = ''first-api-key'', subdomain = Some ''company2''\<rparr> \<and>
   (\<exists>h1 cc1 h2 cc2 h3 cc3.
      getClient env_key no_client = (Inr h1, cc1) \<and> getClient env_key_sub cc1 = (Inr h2, cc2) \<and>
      getClient env_key cc2 = (Inr h3, cc3) \<and> h2 \<noteq> h1 \<and> h3 \<noteq> h1)"
proof -
  have a: "client_inv no_client"
    by (simp add: client_inv_def no_client_def)
  have b: "getCredentials env_key = Some \<lparr>apiKey = ''first-api-key'', subdomain = None\<rparr>"
    by (simp add: getCredentials_def env_key_def)
  have c: "getCredentials env_key_sub =
      Some \<lparr>apiKey = ''first-api-key'', subdomain = Some ''company2''\<rparr>"
    by (simp add: getCredentials_def env_key_sub_def)
  show ?thesis
    using a b c getClient_cached_by_credentials[OF a b c b] by simp
qed

section \<open>Properties of navigation\<close>

lemma domainList_eq: "domainList = ''customers, tickets, assets, contacts, invoices''"
  by (simp add: domainList_def getAvailableDomains_def)

lemma isDomainName_cast: "isDomainName v \<Longrightarrow> JString (domainString (asDomainName v)) = v"
  by (auto simp: isDomainName_def asDomainName_def)

lemma isDomainName_domainString: "isDomainName (JString (domainString d))"
  by (cases d) (simp_all add: isDomainName_def)

lemma asDomainName_domainString: "asDomainName (JString (domainString d)) = d"
  by (cases d) (simp_all add: asDomainName_def)

lemma callTool_body_throws:
  "callToolBody imp s n a = (s', Inl err) \<Longrightarrow>
   callTool imp s n a = (s', \<lparr>content_text = ''Error: '' @ thrown_message err, isError = True\<rparr>)"
  by (simp add: callTool_def)

lemma callTool_body_returns:
  "callToolBody imp s n a = (s', Inr r) \<Longrightarrow> callTool imp s n a = (s', r)"
  by (simp add: callTool_def)

lemma getDomainHandler_cached:
  "getDomainHandler imp cache d = (Inr h, c) \<Longrightarrow> getDomainHandler imp c d = (Inr h, c)"
  by (auto simp: getDomainHandler_def split: option.splits sum.splits)

text \<open>
  In an installation whose five modules load, the registry resolves a handler for every
  domain from every cache, and it keeps the cache as described by \<open>cache_inv\<close>.
\<close>

lemma importModule_resolves:
  "\<exists>h c. getDomainHandler (importModule remote) cache d = (Inr h, c)"
  by (simp add: getDomainHandler_def importModule_def split: option.splits)

lemma cache_inv_iff:
  "cache_inv remote cache \<longleftrightarrow> (\<forall>d h. cache d = Some h \<longrightarrow> importModule remote d = Inr h)"
proof
  assume inv: "cache_inv remote cache"
  show "\<forall>d h. cache d = Some h \<longrightarrow> importModule remote d = Inr h"
  proof (intro allI impI)
    fix d h
    assume "cache d = Some h"
    with inv show "importModule remote d = Inr h"
      by (cases d) (simp_all add: cache_inv_def getAvailableDomains_def)
  qed
next
  assume "\<forall>d h. cache d = Some h \<longrightarrow> importModule remote d = Inr h"
  then show "cache_inv remote cache"
    by (simp add: cache_inv_def getAvailableDomains_def split: option.splits)
qed

lemma cache_inv_empty: "cache_inv remote Map.empty"
  by (simp add: cache_inv_iff)

lemma cache_inv_clearDomainCache: "cache_inv remote (clearDomainCache cache)"
  by (simp add: clearDomainCache_def cache_inv_empty)

lemma getDomainHandler_module:
  assumes "cache_inv remote cache"
  obtains h where
    "getDomainHandler (importModule remote) cache d = (Inr h, cache(d \<mapsto> h))"
    and "importModule remote d = Inr h" and "cache_inv remote (cache(d \<mapsto> h))"
proof (cases "cache d")
  case None
  obtain h where h: "importModule remote d = Inr h"
    by (simp add: importModule_def)
  with None assms show ?thesis
    by (intro that[of h]) (simp_all add: getDomainHandler_def cache_inv_iff)
next
  case (Some h)
  with assms have h: "importModule remote d = Inr h"
    by (simp add: cache_inv_iff)
  from Some have "cache(d \<mapsto> h) = cache"
    by (rule map_upd_triv)
  with Some h assms show ?thesis
    by (intro that[of h]) (simp_all add: getDomainHandler_def)
qed

lemma cache_inv_getDomainHandler:
  assumes "cache_inv remote cache"
  shows "cache_inv remote (snd (getDomainHandler (importModule remote) cache d))"
  using getDomainHandler_module[OF assms, of d] by (metis snd_conv)

lemma cache_inv_getToolsForState:
  assumes "cache_inv remote (domainCache s)"
  shows "cache_inv remote (domainCache (snd (getToolsForState (importModule remote) s)))"
proof (cases "currentDomain s")
  case None
  with assms show ?thesis
    by (simp add: getToolsForState_def)
next
  case (Some d)
  from assms obtain h where
    "getDomainHandler (importModule remote) (domainCache s) d = (Inr h, (domainCache s)(d \<mapsto> h))"
    and "cache_inv remote ((domainCache s)(d \<mapsto> h))"
    by (rule getDomainHandler_module)
  with Some show ?thesis
    by (simp add: getToolsForState_def)
qed

lemma callToolBody_cache:
  "domainCache (fst (callToolBody imp s n a)) = domainCache s \<or>
   (\<exists>d. domainCache (fst (callToolBody imp s n a)) = snd (getDomainHandler imp (domainCache s) d))"
proof (cases "n = ''syncro_navigate''")
  case True
  show ?thesis
  proof (cases a)
    case None
    with True show ?thesis by (simp add: callToolBody_def)
  next
    case (Some bag)
    let ?d = "asDomainName (getProp bag ''domain'')"
    obtain r c where g: "getDomainHandler imp (domainCache s) ?d = (r, c)"
      by (cases "getDomainHandler imp (domainCache s) ?d")
    then have c: "c = snd (getDomainHandler imp (domainCache s) ?d)"
      by simp
    have "domainCache (fst (callToolBody imp s n a)) = domainCache s \<or>
        domainCache (fst (callToolBody imp s n a)) = c"
      using True Some g
      by (cases r) (simp_all add: callToolBody_def Let_def split: option.splits sum.splits)
    with c show ?thesis by blast
  qed
next
  case False
  show ?thesis
  proof (cases "currentDomain s")
    case None
    with False show ?thesis by (simp add: callToolBody_def)
  next
    case (Some d)
    obtain r c where g: "getDomainHandler imp (domainCache s) d = (r, c)"
      by (cases "getDomainHandler imp (domainCache s) d")
    then have c: "c = snd (getDomainHandler imp (domainCache s) d)"
      by simp
    have "domainCache (fst (callToolBody imp s n a)) = domainCache s \<or>
        domainCache (fst (callToolBody imp s n a)) = c"
      using False Some g
      by (cases r) (simp_all add: callToolBody_def Let_def split: prod.splits)
    with c show ?thesis by blast
  qed
qed

lemma cache_inv_callTool:
  assumes "cache_inv remote (domainCache s)"
  shows "cache_inv remote (domainCache (fst (callTool (importModule remote) s n a)))"
proof -
  have "cache_inv remote (domainCache (fst (callToolBody (importModule remote) s n a)))"
    using callToolBody_cache[of "importModule remote" s n a] assms
      cache_inv_getDomainHandler[OF assms]
    by auto
  moreover have "fst (callTool (importModule remote) s n a) =
      fst (callToolBody (importModule remote) s n a)"
    by (simp add: callTool_def split: prod.splits sum.splits)
  ultimately show ?thesis by simp
qed

lemma moduleTools:
  "importModule remote d = Inr h \<Longrightarrow>
   getTools h =
     (case d of
        Customers \<Rightarrow> customersTools
      | Tickets \<Rightarrow> ticketsTools
      | Assets \<Rightarrow> assetsTools
      | Contacts \<Rightarrow> contactsTools
      | Invoices \<Rightarrow> invoicesTools)"
  by (cases d)
     (auto simp: importModule_def customersHandler_def ticketsHandler_def assetsHandler_def
        contactsHandler_def invoicesHandler_def)

text \<open>The step of \<open>syncro_navigate\<close> for any loader, once the handler resolves.\<close>

lemma navigate_with_handler:
  assumes "getProp bag ''domain'' = JString (domainString d)"
    and "getCredentials (process_env s) = Some creds"
    and "getDomainHandler imp (domainCache s) d = (Inr h, c)"
  shows "callTool imp s ''syncro_navigate'' (Some bag) =
           (s\<lparr>currentDomain := Some d, domainCache := c\<rparr>,
            \<lparr>content_text = navigateText d (getTools h), isError = False\<rparr>)"
    and "getToolsForState imp (s\<lparr>currentDomain := Some d, domainCache := c\<rparr>) =
           (Inr (backTool # statusTool # getTools h),
            s\<lparr>currentDomain := Some d, domainCache := c\<rparr>)"
proof -
  let ?s' = "s\<lparr>currentDomain := Some d, domainCache := c\<rparr>"
  have "callToolBody imp s ''syncro_navigate'' (Some bag) =
      (?s', Inr \<lparr>content_text = navigateText d (getTools h), isError = False\<rparr>)"
    using assms
    by (simp add: callToolBody_def Let_def isDomainName_domainString asDomainName_domainString)
  then show "callTool imp s ''syncro_navigate'' (Some bag) =
      (?s', \<lparr>content_text = navigateText d (getTools h), isError = False\<rparr>)"
    by (rule callTool_body_returns)
  show "getToolsForState imp ?s' = (Inr (backTool # statusTool # getTools h), ?s')"
    using getDomainHandler_cached[OF assms(3)] by (simp add: getToolsForState_def Let_def)
qed

text \<open>
  Claim C1. Let \<open>d\<close> be any of the five domains, let the call of \<open>syncro_navigate\<close> carry
  its name and let a credential tuple be resolvable. Then, from any current domain and any
  cache the registry maintains, the call succeeds and leaves the server in domain \<open>d\<close>,
  with everything but the current domain and the cache as it was. The tools listed in the
  state reached are the back tool, the status tool and then the tools of the module of
  \<open>d\<close> in their order, and nothing else: the customers tools for customers, the tickets
  tools for tickets, and so on for assets, contacts and invoices.
\<close>

theorem navigate_enters_domain:
  assumes "getProp bag ''domain'' = JString (domainString d)"
    and "getCredentials (process_env s) = Some creds"
    and "cache_inv remote (domainCache s)"
  shows "\<exists>s'. callTool (importModule remote) s ''syncro_navigate'' (Some bag) =
                (s', \<lparr>content_text =
                        navigateText d
                          (case d of
                             Customers \<Rightarrow> customersTools
                           | Tickets \<Rightarrow> ticketsTools
                           | Assets \<Rightarrow> assetsTools
                           | Contacts \<Rightarrow> contactsTools
                           | Invoices \<Rightarrow> invoicesTools),
                      isError = False\<rparr>) \<and>
              currentDomain s' = Some d \<and>
              cache_inv remote (domainCache s') \<and>
              process_env s' = process_env s \<and> clients s' = clients s \<and> trace s' = trace s \<and>
              getToolsForState (importModule remote) s' =
                (Inr (backTool # statusTool
                        # (case d of
                             Customers \<Rightarrow> customersTools
                           | Tickets \<Rightarrow> ticketsTools
                           | Assets \<Rightarrow> assetsTools
                           | Contacts \<Rightarrow> contactsTools
                           | Invoices \<Rightarrow> invoicesTools)),
                 s')"
proof -
  from assms(3) obtain h where
    g: "getDomainHandler (importModule remote) (domainCache s) d =
          (Inr h, (domainCache s)(d \<mapsto> h))"
    and m: "importModule remote d = Inr h"
    and i: "cache_inv remote ((domainCache s)(d \<mapsto> h))"
    by (rule getDomainHandler_module)
  let ?s' = "s\<lparr>currentDomain := Some d, domainCache := (domainCache s)(d \<mapsto> h)\<rparr>"
  note step = navigate_with_handler[OF assms(1,2) g]
  have "callTool (importModule remote) s ''syncro_navigate'' (Some bag) =
      (?s', \<lparr>content_text = navigateText d (getTools h), isError = False\<rparr>)"
    by (rule step(1))
  moreover have "getToolsForState (importModule remote) ?s' =
      (Inr (backTool # statusTool # getTools h), ?s')"
    by (rule step(2))
  moreover have "currentDomain ?s' = Some d" "cache_inv remote (domainCache ?s')"
    "process_env ?s' = process_env s" "clients ?s' = clients s" "trace ?s' = trace s"
    using i by simp_all
  ultimately show ?thesis
    unfolding moduleTools[OF m] by blast
qed

theorem navigate_enters_domain_witness:
  "getProp toTickets ''domain'' = JString (domainString Tickets) \<and>
   getProp toCustomers ''domain'' = JString (domainString Customers) \<and>
   getCredentials (process_env (initial env_key)) =
     Some \<lparr>apiKey = ''first-api-key'', subdomain = None\<rparr> \<and>
   getCredentials (process_env inTickets) =
     Some \<lparr>apiKey = ''first-api-key'', subdomain = None\<rparr> \<and>
   cache_inv ticketNotFound (domainCache (initial env_key)) \<and>
   cache_inv ticketNotFound (domainCache inTickets) \<and>
   (\<exists>s'. callTool (importModule ticketNotFound) (initial env_key) ''syncro_navigate''
            (Some toTickets) =
          (s', \<lparr>content_text = navigateText Tickets ticketsTools, isError = False\<rparr>) \<and>
        currentDomain s' = Some Tickets \<and>
        getToolsForState (importModule ticketNotFound) s' =
          (Inr (backTool # statusTool # ticketsTools), s')) \<and>
   (\<exists>s'. callTool (importModule ticketNotFound) inTickets ''syncro_navigate''
            (Some toCustomers) =
          (s', \<lparr>content_text = navigateText Customers customersTools, isError = False\<rparr>) \<and>
        currentDomain s' = Some Customers \<and>
        getToolsForState (importModule ticketNotFound) s' =
          (Inr (backTool # statusTool # customersTools), s'))"
proof -
  have a: "getProp toTickets ''domain'' = JString (domainString Tickets)"
    and a': "getProp toCustomers ''domain'' = JString (domainString Customers)"
    by (simp_all add: getProp_def toTickets_def toCustomers_def)
  have b: "getCredentials (process_env (initial env_key)) =
      Some \<lparr>apiKey = ''first-api-key'', subdomain = None\<rparr>"
    and b': "getCredentials (process_env inTickets) =
      Some \<lparr>apiKey = ''first-api-key'', subdomain = None\<rparr>"
    by (simp_all add: getCredentials_def inTickets_def initial_def env_key_def)
  have c: "cache_inv ticketNotFound (domainCache (initial env_key))"
    by (simp add: initial_def cache_inv_def getAvailableDomains_def)
  have c': "cache_inv ticketNotFound (domainCache inTickets)"
    by (simp add: inTickets_def cache_inv_def getAvailableDomains_def importModule_def)
  from navigate_enters_domain[OF a b c]
  have 1: "\<exists>s'. callTool (importModule ticketNotFound) (initial env_key) ''syncro_navigate''
            (Some toTickets) =
          (s', \<lparr>content_text = navigateText Tickets ticketsTools, isError = False\<rparr>) \<and>
        currentDomain s' = Some Tickets \<and>
        getToolsForState (importModule ticketNotFound) s' =
          (Inr (backTool # statusTool # ticketsTools), s')"
    by auto
  from navigate_enters_domain[OF a' b' c']
  have 2: "\<exists>s'. callTool (importModule ticketNotFound) inTickets ''syncro_navigate''
            (Some toCustomers) =
          (s', \<lparr>content_text = navigateText Customers customersTools, isError = False\<rparr>) \<and>
        currentDomain s' = Some Customers \<and>
        getToolsForState (importModule ticketNotFound) s' =
          (Inr (backTool # statusTool # customersTools), s')"
    by auto
  from a a' b b' c c' 1 2 show ?thesis
    by blast
qed

text \<open>
  Claim C5, as the code has it. A call of \<open>syncro_navigate\<close> whose \<open>domain\<close> argument is
  not one of the five domain names, or that carries no argument bag at all, leaves the
  whole state as it was and returns a result with the error flag set. When the call
  carries an argument bag and the \<open>domain\<close> value converts to a string, as every string and
  a missing value do, the text lists the valid domains in the registry's order. A call
  with a valid domain while no credential tuple is resolvable leaves the state as it was
  and returns an error result that tells the caller to set the API key.
\<close>

theorem navigate_rejected_without_state_change:
  "(\<not> isDomainName (getProp bag ''domain'') \<longrightarrow>
      fst (callTool imp s ''syncro_navigate'' (Some bag)) = s \<and>
      isError (snd (callTool imp s ''syncro_navigate'' (Some bag)))) \<and>
   fst (callTool imp s ''syncro_navigate'' None) = s \<and>
   isError (snd (callTool imp s ''syncro_navigate'' None)) \<and>
   (\<not> isDomainName (getProp bag ''domain'') \<and> js_String (getProp bag ''domain'') = Inr shown \<longrightarrow>
      callTool imp s ''syncro_navigate'' (Some bag) =
        (s, \<lparr>content_text =
               ''Invalid domain: '' @ shown
                 @ ''. Available domains: customers, tickets, assets, contacts, invoices'',
             isError = True\<rparr>)) \<and>
   (isDomainName (getProp bag ''domain'') \<and> getCredentials (process_env s) = None \<longrightarrow>
      callTool imp s ''syncro_navigate'' (Some bag) =
        (s, \<lparr>content_text =
               ''Error: No API credentials configured. Please set SYNCRO_API_KEY environment variable.'',
             isError = True\<rparr>))"
  by (simp add: callTool_def callToolBody_def Let_def domainList_eq split: sum.splits)

theorem navigate_rejected_without_state_change_witness:
  "\<not> isDomainName (getProp toUnknown ''domain'') \<and>
   js_String (getProp toUnknown ''domain'') = Inr ''unknown'' \<and>
   callTool brokenImport inTickets ''syncro_navigate'' (Some toUnknown) =
     (inTickets,
      \<lparr>content_text =
         ''Invalid domain: unknown. Available domains: customers, tickets, assets, contacts, invoices'',
       isError = True\<rparr>) \<and>
   \<not> isDomainName (getProp toOpaque ''domain'') \<and>
   fst (callTool brokenImport inTickets ''syncro_navigate'' (Some toOpaque)) = inTickets \<and>
   isError (snd (callTool brokenImport inTickets ''syncro_navigate'' (Some toOpaque))) \<and>
   isDomainName (getProp toTickets ''domain'') \<and>
   getCredentials (process_env (initial Map.empty)) = None \<and>
   callTool brokenImport (initial Map.empty) ''syncro_navigate'' (Some toTickets) =
     (initial Map.empty,
      \<lparr>content_text =
         ''Error: No API credentials configured. Please set SYNCRO_API_KEY environment variable.'',
       isError = True\<rparr>)"
proof -
  have a: "\<not> isDomainName (getProp toUnknown ''domain'')"
    and o: "\<not> isDomainName (getProp toOpaque ''domain'')"
    by (simp_all add: isDomainName_def getProp_def toUnknown_def toOpaque_def)
  have b: "isDomainName (getProp toTickets ''domain'')"
    by (simp add: isDomainName_def getProp_def toTickets_def)
  have c: "getCredentials (process_env (initial Map.empty)) = None"
    by (simp add: getCredentials_def initial_def)
  have u: "js_String (getProp toUnknown ''domain'') = Inr ''unknown''"
    by (simp add: getProp_def toUnknown_def)
  show ?thesis
    using a o b c u
      navigate_rejected_without_state_change[of toUnknown brokenImport inTickets "''unknown''"]
      navigate_rejected_without_state_change[of toOpaque brokenImport inTickets]
      navigate_rejected_without_state_change[of toTickets brokenImport "initial Map.empty"]
    by simp
qed

text \<open>
  Claim C5, as stated, fails. A call whose \<open>domain\<close> value is an object without a
  conversion to a string is outside the closed domain set, and so is a call without an
  argument bag; both are answered with an error result whose text is the message of the
  \<open>TypeError\<close> and names no domain.
\<close>

theorem navigate_enumerates_domains_counterexample:
  "\<not> isDomainName (getProp toOpaque ''domain'') \<and>
   callTool brokenImport inTickets ''syncro_navigate'' (Some toOpaque) =
     (inTickets,
      \<lparr>content_text = ''Error: Cannot convert object to primitive value'', isError = True\<rparr>) \<and>
   callTool brokenImport inTickets ''syncro_navigate'' None =
     (inTickets,
      \<lparr>content_text =
         ''Error: Cannot read properties of undefined (reading '' @ [CHR 0x27] @ ''domain''
           @ [CHR 0x27] @ '')'',
       isError = True\<rparr>)"
  by (simp add: callTool_def callToolBody_def Let_def isDomainName_def getProp_def toOpaque_def
      readOfUndefined_def)

text \<open>
  Claim C8. From any state, \<open>syncro_back\<close> returns a result without the error flag and
  leaves the server at the root. The text names the domain that was left, or \<open>root\<close> when
  the server was at the root already. The tools listed afterwards are exactly the navigate
  tool and the status tool.
\<close>

theorem back_returns_to_root:
  "callTool imp s ''syncro_back'' a =
     (s\<lparr>currentDomain := None\<rparr>,
      \<lparr>content_text =
         ''Navigated back from ''
           @ (case currentDomain s of None \<Rightarrow> ''root'' | Some d \<Rightarrow> domainString d)
           @ '' to the main menu.'' @ nl @ nl
           @ ''Available domains: customers, tickets, assets, contacts, invoices'' @ nl @ nl
           @ ''Use syncro_navigate to select a domain.'',
       isError = False\<rparr>) \<and>
   getToolsForState imp (s\<lparr>currentDomain := None\<rparr>) =
     (Inr [navigateTool, statusTool], s\<lparr>currentDomain := None\<rparr>)"
  by (simp add: callTool_def callToolBody_def Let_def backText_def domainList_eq
      getToolsForState_def)

theorem back_returns_to_root_witness:
  "callTool brokenImport inTickets ''syncro_back'' None =
     (inTickets\<lparr>currentDomain := None\<rparr>,
      \<lparr>content_text =
         ''Navigated back from tickets to the main menu.'' @ nl @ nl
           @ ''Available domains: customers, tickets, assets, contacts, invoices'' @ nl @ nl
           @ ''Use syncro_navigate to select a domain.'',
       isError = False\<rparr>) \<and>
   getToolsForState brokenImport (inTickets\<lparr>currentDomain := None\<rparr>) =
     (Inr [navigateTool, statusTool], inTickets\<lparr>currentDomain := None\<rparr>) \<and>
   callTool brokenImport (initial env_key) ''syncro_back'' None =
     (initial env_key,
      \<lparr>content_text =
         ''Navigated back from root to the main menu.'' @ nl @ nl
           @ ''Available domains: customers, tickets, assets, contacts, invoices'' @ nl @ nl
           @ ''Use syncro_navigate to select a domain.'',
       isError = False\<rparr>)"
proof -
  have a: "currentDomain inTickets = Some Tickets"
    by (simp add: inTickets_def)
  have b: "currentDomain (initial env_key) = None"
    and c: "(initial env_key)\<lparr>currentDomain := None\<rparr> = initial env_key"
    by (simp_all add: initial_def)
  show ?thesis
    using a b c back_returns_to_root[of brokenImport inTickets None]
      back_returns_to_root[of brokenImport "initial env_key" None]
    by simp
qed

text \<open>
  Claim C9. Let \<open>syncro_navigate\<close> be called with a valid domain \<open>d\<close> and resolvable
  credentials, the handler of \<open>d\<close> not being cached, and let the import of the module
  throw. The call returns an error result carrying the thrown message, and the state it
  leaves has \<open>d\<close> as the current domain: the assignment made before the load stays.
\<close>

theorem navigate_load_failure_keeps_domain:
  assumes "getProp bag ''domain'' = JString (domainString d)"
    and "getCredentials (process_env s) = Some creds"
    and "domainCache s d = None"
    and "imp d = Inl err"
  shows "callTool imp s ''syncro_navigate'' (Some bag) =
           (s\<lparr>currentDomain := Some d\<rparr>,
            \<lparr>content_text = ''Error: '' @ thrown_message err, isError = True\<rparr>)"
proof -
  have "getDomainHandler imp (domainCache s) d = (Inl err, domainCache s)"
    using assms(3,4) by (simp add: getDomainHandler_def)
  then have "callToolBody imp s ''syncro_navigate'' (Some bag) =
      (s\<lparr>currentDomain := Some d\<rparr>, Inl err)"
    using assms(1,2)
    by (simp add: callToolBody_def Let_def isDomainName_domainString asDomainName_domainString)
  then show ?thesis
    by (rule callTool_body_throws)
qed

theorem navigate_load_failure_keeps_domain_witness:
  "getProp toTickets ''domain'' = JString (domainString Tickets) \<and>
   getCredentials (process_env (initial env_key)) =
     Some \<lparr>apiKey = ''first-api-key'', subdomain = None\<rparr> \<and>
   domainCache (initial env_key) Tickets = None \<and>
   brokenImport Tickets = Inl (JsError ''Cannot find module'') \<and>
   callTool brokenImport (initial env_key) ''syncro_navigate'' (Some toTickets) =
     ((initial env_key)\<lparr>currentDomain := Some Tickets\<rparr>,
      \<lparr>content_text = ''Error: Cannot find module'', isError = True\<rparr>)"
proof -
  have a: "getProp toTickets ''domain'' = JString (domainString Tickets)"
    by (simp add: getProp_def toTickets_def)
  have b: "getCredentials (process_env (initial env_key)) =
      Some \<lparr>apiKey = ''first-api-key'', subdomain = None\<rparr>"
    by (simp add: getCredentials_def initial_def env_key_def)
  have c: "domainCache (initial env_key) Tickets = None"
    by (simp add: initial_def)
  have d: "brokenImport Tickets = Inl (JsError ''Cannot find module'')"
    by (simp add: brokenImport_def)
  show ?thesis
    using a b c d navigate_load_failure_keeps_domain[of toTickets Tickets "initial env_key" _ brokenImport, OF a b c d]
    by simp
qed


section \<open>Properties of dispatch\<close>

text \<open>
  Claim C6. Let the name of a call be none of the three reserved names and none of the
  names of the tools visible in the current state. Then the call returns an error result,
  no handler's \<open>handleCall\<close> is invoked (the history and the client cache stay as they
  were) and the current domain stays. In a domain the text names that domain and
  \<open>syncro_back\<close>; at the root it tells the caller to use \<open>syncro_navigate\<close> first. The
  name may well be a tool of another domain.
\<close>

theorem unknown_tool_rejected:
  assumes "toolName \<notin> {''syncro_navigate'', ''syncro_back'', ''syncro_status''}"
    and "getToolsForState imp s = (Inr visible, s')"
    and "toolName \<notin> set (map name visible)"
  shows "callTool imp s toolName a =
           (s', \<lparr>content_text =
                  (case currentDomain s of
                     None \<Rightarrow>
                       ''Unknown tool: '' @ toolName
                         @ ''. Use syncro_navigate to select a domain first.''
                   | Some d \<Rightarrow>
                       ''Unknown tool: '' @ toolName @ ''. You are currently in the ''
                         @ domainString d
                         @ '' domain. Use syncro_back to return to the main menu.''),
                 isError = True\<rparr>) \<and>
         trace s' = trace s \<and> clients s' = clients s \<and> currentDomain s' = currentDomain s"
proof (cases "currentDomain s")
  case None
  with assms(2) have "s' = s"
    by (simp add: getToolsForState_def)
  with None assms(1) show ?thesis
    by (simp add: callTool_def callToolBody_def unknownToolText_def)
next
  case (Some d)
  obtain r c where g: "getDomainHandler imp (domainCache s) d = (r, c)"
    by (cases "getDomainHandler imp (domainCache s) d")
  with Some assms(2) obtain h where r: "r = Inr h"
    and v: "visible = backTool # statusTool # getTools h" and s': "s' = s\<lparr>domainCache := c\<rparr>"
    by (cases r) (auto simp: getToolsForState_def Let_def)
  from assms(3) v have "\<not> (\<exists>t \<in> set (getTools h). name t = toolName)"
    by auto
  with Some assms(1) g r s' show ?thesis
    by (simp add: callTool_def callToolBody_def Let_def unknownToolText_def)
qed

theorem unknown_tool_rejected_witness:
  "''syncro_customers_list'' \<notin> {''syncro_navigate'', ''syncro_back'', ''syncro_status''} \<and>
   getToolsForState (importModule ticketNotFound) inTickets =
     (Inr (backTool # statusTool # ticketsTools), inTickets) \<and>
   ''syncro_customers_list'' \<notin> set (map name (backTool # statusTool # ticketsTools)) \<and>
   ''syncro_customers_list'' \<in> set (map name customersTools) \<and>
   callTool (importModule ticketNotFound) inTickets ''syncro_customers_list'' None =
     (inTickets,
      \<lparr>content_text =
         ''Unknown tool: syncro_customers_list. You are currently in the tickets domain. Use syncro_back to return to the main menu.'',
       isError = True\<rparr>)"
proof -
  have a: "''syncro_customers_list'' \<notin> {''syncro_navigate'', ''syncro_back'', ''syncro_status''}"
    by simp
  have b: "getToolsForState (importModule ticketNotFound) inTickets =
      (Inr (backTool # statusTool # ticketsTools), inTickets)"
    by (simp add: getToolsForState_def getDomainHandler_def inTickets_def initial_def
        ticketsHandler_def)
  have c: "''syncro_customers_list'' \<notin> set (map name (backTool # statusTool # ticketsTools))"
    by (simp add: backTool_def statusTool_def ticketsTools_def)
  have d: "''syncro_customers_list'' \<in> set (map name customersTools)"
    by (simp add: customersTools_def)
  have e: "currentDomain inTickets = Some Tickets"
    by (simp add: inTickets_def)
  show ?thesis
    using a b c d e unknown_tool_rejected[OF a b c, of None] by simp
qed

text \<open>
  What a handler of the repository throws: the error of \<open>getClient\<close> when no credentials
  are configured, and whatever the remote operation throws.
\<close>

lemma moduleHandleCall_no_credentials:
  "getCredentials e = None \<Longrightarrow>
   moduleHandleCall tools unknown remote toolName a e cc =
     (Inl (JsError
        ''No API credentials provided. Please configure SYNCRO_API_KEY environment variable.''),
      cc)"
  by (simp add: moduleHandleCall_def getClient_no_credentials)

lemma moduleHandleCall_remote_throws:
  assumes "getClient e cc = (Inr cl, cc')" and "toolName \<in> set (map name tools)"
    and "remote cl toolName a = Inl err"
  shows "moduleHandleCall tools unknown remote toolName a e cc = (Inl err, cc')"
  using assms by (simp add: moduleHandleCall_def)





section \<open>Properties of the HTTP transport\<close>

lemma toLowerCase_api_key: "toLowerCase ''x-syncro-api-key'' = ''x-syncro-api-key''"
  by (simp add: toLowerCase_def lowerChar_def)

lemma toLowerCase_subdomain: "toLowerCase ''x-syncro-subdomain'' = ''x-syncro-subdomain''"
  by (simp add: toLowerCase_def lowerChar_def)

lemma getHeader_absent:
  "hs ''x-syncro-api-key'' = None \<Longrightarrow> getHeader hs ''x-syncro-api-key'' = None"
  "hs ''x-syncro-subdomain'' = None \<Longrightarrow> getHeader hs ''x-syncro-subdomain'' = None"
  by (simp_all add: getHeader_def toLowerCase_api_key toLowerCase_subdomain)

lemma getHeader_string:
  "hs ''x-syncro-api-key'' = Some (HString v) \<Longrightarrow> getHeader hs ''x-syncro-api-key'' = Some v"
  "hs ''x-syncro-subdomain'' = Some (HString v) \<Longrightarrow> getHeader hs ''x-syncro-subdomain'' = Some v"
  by (simp_all add: getHeader_def toLowerCase_api_key toLowerCase_subdomain)

lemma applyGatewayCredentials_missing:
  "\<not> nonempty (getHeader hs ''x-syncro-api-key'') \<Longrightarrow> applyGatewayCredentials hs e = (False, e)"
  by (cases "getHeader hs ''x-syncro-api-key''") (simp_all add: applyGatewayCredentials_def)

lemma applyGatewayCredentials_present:
  assumes "getHeader hs ''x-syncro-api-key'' = Some k" and "k \<noteq> []"
  shows "applyGatewayCredentials hs e =
     (True,
      if nonempty (getHeader hs ''x-syncro-subdomain'')
      then e(''SYNCRO_API_KEY'' \<mapsto> k,
             ''SYNCRO_SUBDOMAIN'' \<mapsto> the (getHeader hs ''x-syncro-subdomain''))
      else e(''SYNCRO_API_KEY'' \<mapsto> k))"
  using assms
  by (cases "getHeader hs ''x-syncro-subdomain''") (simp_all add: applyGatewayCredentials_def)

lemma getToolsForState_env: "process_env (snd (getToolsForState imp s)) = process_env s"
  by (simp add: getToolsForState_def Let_def split: option.splits prod.splits sum.splits)

lemma callToolBody_env: "process_env (fst (callToolBody imp s n a)) = process_env s"
  by (simp add: callToolBody_def Let_def split: option.splits prod.splits sum.splits)

lemma callTool_env: "process_env (fst (callTool imp s n a)) = process_env s"
  using callToolBody_env[of imp s n a]
  by (auto simp: callTool_def split: prod.splits sum.splits)

lemma handleRequest_env: "process_env (fst (handleRequest imp s m)) = process_env s"
proof (cases m)
  case ListTools
  then show ?thesis
    using getToolsForState_env[of imp "s\<lparr>trace := trace s @ [EvHandleRequest]\<rparr>"]
    by (auto simp: handleRequest_def split: prod.splits)
next
  case (CallTool n a)
  then show ?thesis
    using callTool_env[of imp "s\<lparr>trace := trace s @ [EvHandleRequest]\<rparr>" n a]
    by (auto simp: handleRequest_def split: prod.splits)
next
  case OtherRpc
  then show ?thesis by (simp add: handleRequest_def)
qed

lemma getToolsForState_trace: "trace (snd (getToolsForState imp s)) = trace s"
  by (simp add: getToolsForState_def Let_def split: option.splits prod.splits sum.splits)

lemma callToolBody_trace: "set (trace s) \<subseteq> set (trace (fst (callToolBody imp s n a)))"
  by (auto simp: callToolBody_def Let_def split: option.splits prod.splits sum.splits)

lemma callTool_trace: "set (trace s) \<subseteq> set (trace (fst (callTool imp s n a)))"
  using callToolBody_trace[of s imp n a]
  by (auto simp: callTool_def split: prod.splits sum.splits)

lemma handleRequest_recorded: "EvHandleRequest \<in> set (trace (fst (handleRequest imp s m)))"
proof (cases m)
  case ListTools
  then show ?thesis
    using getToolsForState_trace[of imp "s\<lparr>trace := trace s @ [EvHandleRequest]\<rparr>"]
    by (auto simp: handleRequest_def split: prod.splits)
next
  case (CallTool n a)
  then show ?thesis
    using callTool_trace[of "s\<lparr>trace := trace s @ [EvHandleRequest]\<rparr>" imp n a]
    by (auto simp: handleRequest_def split: prod.splits)
next
  case OtherRpc
  then show ?thesis by (simp add: handleRequest_def)
qed

lemma httpListener_gateway_dispatch:
  assumes "pathname parseURL req = Inr ''/mcp''"
    and "getHeader (headers req) ''x-syncro-api-key'' = Some k" and "k \<noteq> []"
  shows "httpListener True parseURL imp now s req =
     (case handleRequest imp
             (s\<lparr>process_env := snd (applyGatewayCredentials (headers req) (process_env s))\<rparr>)
             (message req) of
        (s', r) \<Rightarrow> (s', Transport r))"
  using assms by (simp add: httpListener_def applyGatewayCredentials_present)

lemma httpListener_gateway_env:
  assumes "pathname parseURL req = Inr ''/mcp''"
    and "getHeader (headers req) ''x-syncro-api-key'' = Some k" and "k \<noteq> []"
  shows "process_env (fst (httpListener True parseURL imp now s req)) =
     snd (applyGatewayCredentials (headers req) (process_env s))"
  using handleRequest_env[of imp
      "s\<lparr>process_env := snd (applyGatewayCredentials (headers req) (process_env s))\<rparr>"
      "message req"]
  by (auto simp: httpListener_gateway_dispatch[OF assms] split: prod.splits)

lemma pathname_exampleURL:
  "pathname exampleURL gatewayBoth = Inr ''/mcp''"
  "pathname exampleURL gatewayKeyOnly = Inr ''/mcp''"
  "pathname exampleURL gatewayNoKey = Inr ''/mcp''"
  "pathname exampleURL doubleSlash = Inl (JsError ''Invalid URL'')"
  by (simp_all add: pathname_def requestTarget_def exampleURL_def gatewayBoth_def
      gatewayKeyOnly_def gatewayNoKey_def doubleSlash_def)

text \<open>
  The three routes, for a request whose URL parses. In gateway mode a request to \<open>/mcp\<close>
  without a usable \<open>x-syncro-api-key\<close> header (absent or empty) is answered with status
  401 and a body that names \<open>X-Syncro-API-Key\<close> as required and \<open>X-Syncro-Subdomain\<close> as
  optional; the state is returned as it was, so \<open>transport.handleRequest\<close>, which always
  leaves its mark in the history (\<open>handleRequest_recorded\<close>), was not called. In either
  mode a request to \<open>/health\<close> is answered with status 200, the liveness status, the auth
  mode and the timestamp, whatever its headers. Any other path is answered with status 404
  and the two known paths.
\<close>

lemma http_routes_of_parsed_url:
  "(pathname parseURL req = Inr ''/mcp'' \<and>
    \<not> nonempty (getHeader (headers req) ''x-syncro-api-key'') \<longrightarrow>
      httpListener True parseURL imp now s req =
        (s, Reply 401
              (JsonObject
                 [(''error'', JsonString ''Missing credentials''),
                  (''message'', JsonString ''Gateway mode requires X-Syncro-API-Key header''),
                  (''required'', JsonArray [JsonString ''X-Syncro-API-Key'']),
                  (''optional'', JsonArray [JsonString ''X-Syncro-Subdomain''])]))) \<and>
   (pathname parseURL req = Inr ''/health'' \<longrightarrow>
      httpListener g parseURL imp now s req =
        (s, Reply 200
              (JsonObject
                 [(''status'', JsonString ''ok''),
                  (''transport'', JsonString ''http''),
                  (''authMode'', JsonString (if g then ''gateway'' else ''env'')),
                  (''timestamp'', JsonString now)]))) \<and>
   (pathname parseURL req = Inr path \<and> path \<noteq> ''/health'' \<and> path \<noteq> ''/mcp'' \<longrightarrow>
      httpListener g parseURL imp now s req =
        (s, Reply 404
              (JsonObject
                 [(''error'', JsonString ''Not found''),
                  (''endpoints'', JsonArray [JsonString ''/mcp'', JsonString ''/health''])])))"
  by (simp add: httpListener_def applyGatewayCredentials_missing healthBody_def
      missingCredentialsBody_def notFoundBody_def)

text \<open>
  Claim C4 holds of every request whose URL parses (\<open>http_routes_of_parsed_url\<close>), and the
  code fails it on the others. When the constructor \<open>URL\<close> throws on the target and the
  base of a request, in either mode and whatever the headers, the listener writes no
  reply, neither 404 nor 401 nor 200: the process exits with code 1.
\<close>

theorem http_listener_exits_on_unparsable_url:
  assumes "pathname parseURL req = Inl error"
  shows "httpListener g parseURL imp now s req = (s, Exit 1)"
  using assms by (simp add: httpListener_def uncaughtException_def)

theorem http_listener_exits_on_unparsable_url_witness:
  "pathname exampleURL doubleSlash = Inl (JsError ''Invalid URL'') \<and>
   httpListener True exampleURL brokenImport ''2026-01-01T00:00:00.000Z'' inTickets doubleSlash =
     (inTickets, Exit 1) \<and>
   httpListener False exampleURL brokenImport ''2026-01-01T00:00:00.000Z'' inTickets doubleSlash =
     (inTickets, Exit 1)"
proof -
  have a: "pathname exampleURL doubleSlash = Inl (JsError ''Invalid URL'')"
    by (rule pathname_exampleURL(4))
  show ?thesis
    using a
      http_listener_exits_on_unparsable_url[OF a, of True brokenImport
        "''2026-01-01T00:00:00.000Z''" inTickets]
      http_listener_exits_on_unparsable_url[OF a, of False brokenImport
        "''2026-01-01T00:00:00.000Z''" inTickets]
    by simp
qed

text \<open>
  Claim C3, as the code has it. In gateway mode, a request to \<open>/mcp\<close> that carries a
  non-empty API key writes its credential values into the environment of the process,
  and they stay there when the request is over: a credential resolution after the request
  yields the request's API key, with the request's tenant qualifier if it carried a
  non-empty one and the tenant qualifier of the environment before the request otherwise.
\<close>

theorem gateway_credentials_outlive_request:
  assumes "pathname parseURL req = Inr ''/mcp''"
    and "getHeader (headers req) ''x-syncro-api-key'' = Some k" and "k \<noteq> []"
  shows "getCredentials (process_env (fst (httpListener True parseURL imp now s req))) =
           Some \<lparr>apiKey = k,
                 subdomain =
                   (if nonempty (getHeader (headers req) ''x-syncro-subdomain'')
                    then getHeader (headers req) ''x-syncro-subdomain''
                    else process_env s ''SYNCRO_SUBDOMAIN'')\<rparr>"
proof (cases "getHeader (headers req) ''x-syncro-subdomain''")
  case None
  then show ?thesis
    using assms(3)
    by (simp add: httpListener_gateway_env[OF assms] applyGatewayCredentials_present[OF assms(2,3)]
        getCredentials_def)
next
  case (Some sd)
  then show ?thesis
    using assms(3)
    by (simp add: httpListener_gateway_env[OF assms] applyGatewayCredentials_present[OF assms(2,3)]
        getCredentials_def)
qed

theorem gateway_credentials_outlive_request_witness:
  "pathname exampleURL gatewayBoth = Inr ''/mcp'' \<and>
   getHeader (headers gatewayBoth) ''x-syncro-api-key'' = Some ''test-api-key-123'' \<and>
   ''test-api-key-123'' \<noteq> [] \<and>
   getCredentials
     (process_env (fst (httpListener True exampleURL brokenImport ''2026-01-01T00:00:00.000Z''
        (initial env_key) gatewayBoth))) =
     Some \<lparr>apiKey = ''test-api-key-123'', subdomain = Some ''test-company''\<rparr>"
proof -
  have a: "pathname exampleURL gatewayBoth = Inr ''/mcp''"
    by (rule pathname_exampleURL(1))
  have b: "getHeader (headers gatewayBoth) ''x-syncro-api-key'' = Some ''test-api-key-123''"
    by (simp add: gatewayBoth_def getHeader_string)
  have c: "''test-api-key-123'' \<noteq> []"
    by simp
  have d: "getHeader (headers gatewayBoth) ''x-syncro-subdomain'' = Some ''test-company''"
    by (simp add: gatewayBoth_def getHeader_string)
  show ?thesis
    using a b d
      gateway_credentials_outlive_request[OF a b c, of brokenImport
        "''2026-01-01T00:00:00.000Z''" "initial env_key"]
    by simp
qed

text \<open>
  Claim C3, as stated, fails. The process starts with the API key \<open>first-api-key\<close> and no
  tenant qualifier. After one gateway request with the headers \<open>test-api-key-123\<close> and
  \<open>test-company\<close> has been served, a credential resolution yields the values of the
  request, not those in effect before it.
\<close>

theorem gateway_credentials_request_scoped_counterexample:
  "getCredentials (process_env (initial env_key)) =
     Some \<lparr>apiKey = ''first-api-key'', subdomain = None\<rparr> \<and>
   getCredentials
     (process_env (fst (httpListener True exampleURL brokenImport ''2026-01-01T00:00:00.000Z''
        (initial env_key) gatewayBoth))) =
     Some \<lparr>apiKey = ''test-api-key-123'', subdomain = Some ''test-company''\<rparr> \<and>
   getCredentials
     (process_env (fst (httpListener True exampleURL brokenImport ''2026-01-01T00:00:00.000Z''
        (initial env_key) gatewayBoth))) \<noteq>
   getCredentials (process_env (initial env_key))"
proof -
  have a: "getCredentials (process_env (initial env_key)) =
      Some \<lparr>apiKey = ''first-api-key'', subdomain = None\<rparr>"
    by (simp add: getCredentials_def initial_def env_key_def)
  have h: "handleRequest brokenImport s OtherRpc =
      (s\<lparr>trace := trace s @ [EvHandleRequest]\<rparr>, LibraryReply)" for s
    by (simp add: handleRequest_def)
  have m: "message gatewayBoth = OtherRpc"
    and k: "getHeader (headers gatewayBoth) ''x-syncro-api-key'' = Some ''test-api-key-123''"
    and d: "getHeader (headers gatewayBoth) ''x-syncro-subdomain'' = Some ''test-company''"
    by (simp_all add: gatewayBoth_def getHeader_string)
  have b: "getCredentials
     (process_env (fst (httpListener True exampleURL brokenImport ''2026-01-01T00:00:00.000Z''
        (initial env_key) gatewayBoth))) =
     Some \<lparr>apiKey = ''test-api-key-123'', subdomain = Some ''test-company''\<rparr>"
    by (simp add: httpListener_def pathname_exampleURL applyGatewayCredentials_def k d m h
        getCredentials_def)
  show ?thesis
    using a b by simp
qed

text \<open>
  Claim C10. Two gateway requests to \<open>/mcp\<close> are served one after the other. The first
  carries a non-empty API key \<open>k1\<close> and a non-empty tenant qualifier \<open>sd1\<close>, the second
  a non-empty API key \<open>k2\<close> and no tenant-qualifier header. Then protocol dispatch of the
  second request runs in an environment whose credential resolution yields \<open>k2\<close> paired
  with \<open>sd1\<close>.
\<close>

theorem gateway_subdomain_carries_over:
  assumes "pathname parseURL r1 = Inr ''/mcp''" and "pathname parseURL r2 = Inr ''/mcp''"
    and "getHeader (headers r1) ''x-syncro-api-key'' = Some k1" and "k1 \<noteq> []"
    and "getHeader (headers r1) ''x-syncro-subdomain'' = Some sd1" and "sd1 \<noteq> []"
    and "getHeader (headers r2) ''x-syncro-api-key'' = Some k2" and "k2 \<noteq> []"
    and "headers r2 ''x-syncro-subdomain'' = None"
  shows "\<exists>e2. httpListener True parseURL imp n2 (fst (httpListener True parseURL imp n1 s r1)) r2 =
                (case handleRequest imp
                        ((fst (httpListener True parseURL imp n1 s r1))\<lparr>process_env := e2\<rparr>)
                        (message r2) of
                   (s2, r) \<Rightarrow> (s2, Transport r)) \<and>
              getCredentials e2 = Some \<lparr>apiKey = k2, subdomain = Some sd1\<rparr>"
proof -
  let ?s1 = "fst (httpListener True parseURL imp n1 s r1)"
  let ?e2 = "snd (applyGatewayCredentials (headers r2) (process_env ?s1))"
  have e1: "process_env ?s1 =
      (process_env s)(''SYNCRO_API_KEY'' \<mapsto> k1, ''SYNCRO_SUBDOMAIN'' \<mapsto> sd1)"
    using httpListener_gateway_env[OF assms(1,3,4), of imp n1 s] assms(5,6)
    by (simp add: applyGatewayCredentials_present[OF assms(3,4)])
  have "?e2 = (process_env ?s1)(''SYNCRO_API_KEY'' \<mapsto> k2)"
    using getHeader_absent(2)[of "headers r2"] assms(9)
    by (simp add: applyGatewayCredentials_present[OF assms(7,8)])
  with e1 assms(8) have "getCredentials ?e2 = Some \<lparr>apiKey = k2, subdomain = Some sd1\<rparr>"
    by (simp add: getCredentials_def)
  with httpListener_gateway_dispatch[OF assms(2,7,8), of imp n2 ?s1] show ?thesis
    by blast
qed

theorem gateway_subdomain_carries_over_witness:
  "pathname exampleURL gatewayBoth = Inr ''/mcp'' \<and>
   pathname exampleURL gatewayKeyOnly = Inr ''/mcp'' \<and>
   getHeader (headers gatewayBoth) ''x-syncro-api-key'' = Some ''test-api-key-123'' \<and>
   getHeader (headers gatewayBoth) ''x-syncro-subdomain'' = Some ''test-company'' \<and>
   getHeader (headers gatewayKeyOnly) ''x-syncro-api-key'' = Some ''another-key'' \<and>
   headers gatewayKeyOnly ''x-syncro-subdomain'' = None \<and>
   (\<exists>e2. httpListener True exampleURL brokenImport ''2026-01-01T00:00:01.000Z''
            (fst (httpListener True exampleURL brokenImport ''2026-01-01T00:00:00.000Z''
                    (initial Map.empty) gatewayBoth))
            gatewayKeyOnly =
          (case handleRequest brokenImport
                  ((fst (httpListener True exampleURL brokenImport ''2026-01-01T00:00:00.000Z''
                           (initial Map.empty) gatewayBoth))\<lparr>process_env := e2\<rparr>)
                  (message gatewayKeyOnly) of
             (s2, r) \<Rightarrow> (s2, Transport r)) \<and>
        getCredentials e2 = Some \<lparr>apiKey = ''another-key'', subdomain = Some ''test-company''\<rparr>)"
proof -
  have a: "pathname exampleURL gatewayBoth = Inr ''/mcp''"
    and b: "pathname exampleURL gatewayKeyOnly = Inr ''/mcp''"
    by (rule pathname_exampleURL(1), rule pathname_exampleURL(2))
  have c: "getHeader (headers gatewayBoth) ''x-syncro-api-key'' = Some ''test-api-key-123''"
    and d: "getHeader (headers gatewayBoth) ''x-syncro-subdomain'' = Some ''test-company''"
    by (simp_all add: gatewayBoth_def getHeader_string)
  have e: "getHeader (headers gatewayKeyOnly) ''x-syncro-api-key'' = Some ''another-key''"
    by (simp add: gatewayKeyOnly_def getHeader_string)
  have f: "headers gatewayKeyOnly ''x-syncro-subdomain'' = None"
    by (simp add: gatewayKeyOnly_def)
  have n: "''test-api-key-123'' \<noteq> []" "''test-company'' \<noteq> []" "''another-key'' \<noteq> []"
    by simp_all
  show ?thesis
    using a b c d e f
      gateway_subdomain_carries_over[OF a b c n(1) d n(2) e n(3) f, of brokenImport
        "''2026-01-01T00:00:01.000Z''" "''2026-01-01T00:00:00.000Z''" "initial Map.empty"]
    by simp
qed

text \<open>
  The same seen from the client: the status tool, called by the second request, reports
  the tenant qualifier of the first.
\<close>

lemma gateway_status_after_key_only:
  "snd (httpListener True exampleURL brokenImport ''2026-01-01T00:00:01.000Z''
          (fst (httpListener True exampleURL brokenImport ''2026-01-01T00:00:00.000Z''
                  (initial Map.empty) gatewayBoth))
          gatewayKeyOnly) =
   Transport (ToolResult
     \<lparr>content_text =
        statusText None (Some \<lparr>apiKey = ''another-key'', subdomain = Some ''test-company''\<rparr>),
      isError = False\<rparr>)"
proof -
  have k1: "getHeader (headers gatewayBoth) ''x-syncro-api-key'' = Some ''test-api-key-123''"
    and d1: "getHeader (headers gatewayBoth) ''x-syncro-subdomain'' = Some ''test-company''"
    and m1: "message gatewayBoth = OtherRpc"
    by (simp_all add: gatewayBoth_def getHeader_string)
  have k2: "getHeader (headers gatewayKeyOnly) ''x-syncro-api-key'' = Some ''another-key''"
    and d2: "getHeader (headers gatewayKeyOnly) ''x-syncro-subdomain'' = None"
    and m2: "message gatewayKeyOnly = CallTool ''syncro_status'' None"
    by (simp_all add: gatewayKeyOnly_def getHeader_string getHeader_absent)
  show ?thesis
    by (simp add: httpListener_def pathname_exampleURL applyGatewayCredentials_def k1 d1 m1 k2 d2
        m2 handleRequest_def callTool_def callToolBody_def getCredentials_def initial_def)
qed

end
